theory Spec2Isabelle
  imports Main "HOL-Library.Word"
begin

section \<open>Answer values and answer sets\<close>

text \<open>
  \<^verbatim>\<open>AnswerValue = string | boolean | number\<close>. The numbers that occur in answers are
  small integers (\<^verbatim>\<open>ecmaVersion\<close>), so a number is an \<open>int\<close> here.
\<close>

datatype AnswerValue = Str string | Bool bool | Num int

text \<open>
  The four interfaces of \<^verbatim>\<open>AdapterSettings\<close>: each has a \<^verbatim>\<open>key\<close>, an optional
  \<^verbatim>\<open>label\<close> and an optional \<^verbatim>\<open>defaultValue\<close> of its own type; the constructor is the
  \<^verbatim>\<open>inputType\<close> tag (text, number, checkbox, select), and a select entry also has its
  options (value and text).
\<close>

datatype AdapterSettings =
    StringAdapterSettings string "string option" "string option"
  | NumberAdapterSettings string "string option" "int option"
  | BooleanAdapterSettings string "string option" "bool option"
  | SelectAdapterSettings string "string option" "string option" "(string \<times> string) list"

text \<open>
  What an answer slot can hold: a scalar, an array of scalars, or (for
  \<^verbatim>\<open>adapterSettings\<close>) an array of settings objects. An answer set is a JavaScript
  object read by key, \<^verbatim>\<open>answers[q.name]\<close>; a key that is absent (or holds
  \<^verbatim>\<open>undefined\<close>) reads as \<open>None\<close>, which is what \<^verbatim>\<open>== undefined\<close> tests.
\<close>

datatype Answer = Val AnswerValue | Arr "AnswerValue list" | SettingsArr "AdapterSettings list"

type_synonym Answers = "string \<rightharpoonup> Answer"

section \<open>Conditions\<close>

text \<open>
  \<^verbatim>\<open>Condition = { name } & ({ value: AnswerValue | AnswerValue[] } | { contains } |
  { doesNotContain })\<close>. The two shapes of \<^verbatim>\<open>value\<close> are two constructors. The
  \<^verbatim>\<open>__misused\<close> member exists only for the type checker and has no constructor.
\<close>

datatype Condition =
    Value string AnswerValue
  | ValueOneOf string "AnswerValue list"
  | Contains string AnswerValue
  | DoesNotContain string AnswerValue

text \<open>The \<^verbatim>\<open>condition?: Condition | Condition[]\<close> field of a question.\<close>

datatype ConditionField = NoCondition | OneCondition Condition | AllConditions "Condition list"

text \<open>
  Modelled from the spec: \<^verbatim>\<open>testCondition\<close> is imported from \<^verbatim>\<open>./createAdapter\<close>, which
  is not among the sources. The spec's Condition Evaluator: a \<^verbatim>\<open>value\<close> condition is
  true iff the answer strictly equals the value or, for an array of values, equals one of
  its elements; a \<^verbatim>\<open>contains\<close> condition is true iff the answer is an array containing
  the value; a \<^verbatim>\<open>doesNotContain\<close> condition is true iff the answer is absent, not an
  array, or an array not containing the value.
\<close>

fun testSingleCondition :: "Condition \<Rightarrow> Answers \<Rightarrow> bool" where
  "testSingleCondition (Value n v) answers = (answers n = Some (Val v))"
| "testSingleCondition (ValueOneOf n vs) answers =
     (case answers n of Some (Val v) \<Rightarrow> v \<in> set vs | _ \<Rightarrow> False)"
| "testSingleCondition (Contains n x) answers =
     (case answers n of Some (Arr xs) \<Rightarrow> x \<in> set xs | _ \<Rightarrow> False)"
| "testSingleCondition (DoesNotContain n x) answers =
     (case answers n of Some (Arr xs) \<Rightarrow> x \<notin> set xs | _ \<Rightarrow> True)"

text \<open>
  Modelled from the spec: no condition is true, and a list of conditions is true iff
  every element is.
\<close>

fun testCondition :: "ConditionField \<Rightarrow> Answers \<Rightarrow> bool" where
  "testCondition NoCondition answers = True"
| "testCondition (OneCondition c) answers = testSingleCondition c answers"
| "testCondition (AllConditions cs) answers = list_all (\<lambda>c. testSingleCondition c answers) cs"

section \<open>Questions\<close>

text \<open>
  \<^verbatim>\<open>CheckResult\<close> of a validator: \<^verbatim>\<open>true\<close>, or the error message as a string.
\<close>

datatype CheckResult = CheckTrue | CheckMessage string

type_synonym QuestionAction = "Answer option \<Rightarrow> CheckResult"

type_synonym ResultTransform = "Answer \<Rightarrow> Answer option"

text \<open>
  A question, with the fields the pipeline reads: \<^verbatim>\<open>name\<close>, \<^verbatim>\<open>type\<close>,
  \<^verbatim>\<open>condition\<close>, \<^verbatim>\<open>optional\<close> (an absent field is falsy under \<^verbatim>\<open>!q.optional\<close>, so
  it is \<open>False\<close>), \<^verbatim>\<open>resultTransform\<close> and \<^verbatim>\<open>action\<close>. The prompt's texts, choices
  and initial values, the \<^verbatim>\<open>expert\<close> flag and the \<^verbatim>\<open>migrate\<close> callbacks are not read
  by \<^verbatim>\<open>checkAnswers\<close>, \<^verbatim>\<open>formatAnswers\<close> or \<^verbatim>\<open>validateAnswers\<close>; the three
  \<^verbatim>\<open>migrate\<close> callbacks verified below are separate definitions.
\<close>

record Question =
  name :: string
  qtype :: string
  condition :: ConditionField
  optional :: bool
  resultTransform :: "ResultTransform option"
  action :: "QuestionAction option"

text \<open>
  The validators and transformers of \<^verbatim>\<open>./actionsAndTransformers\<close> are not among the
  sources: the question table takes them as a parameter.
\<close>

record ActionsAndTransformers =
  checkAdapterName :: QuestionAction
  checkAuthorName :: QuestionAction
  checkEmail :: QuestionAction
  checkMinSelections :: "string \<Rightarrow> int \<Rightarrow> QuestionAction"
  checkTitle :: QuestionAction
  checkTypeScriptTools :: QuestionAction
  transformAdapterName :: ResultTransform
  transformContributors :: ResultTransform
  transformDescription :: ResultTransform
  transformKeywords :: ResultTransform

text \<open>A question literal with only the mandatory fields; the table overrides the rest.\<close>

definition question :: "string \<Rightarrow> string \<Rightarrow> Question" where
  "question t n =
     \<lparr>name = n, qtype = t, condition = NoCondition, optional = False,
      resultTransform = None, action = None\<rparr>"

text \<open>
  \<^verbatim>\<open>styledMultiselect\<close> copies the given fields and sets \<^verbatim>\<open>type\<close> (and the hint and
  symbols of the prompt).
\<close>

definition styledMultiselect :: "Question \<Rightarrow> Question" where
  "styledMultiselect ms = ms\<lparr>qtype := ''multiselect''\<rparr>"

text \<open>
  An entry of \<^verbatim>\<open>questionsAndText\<close>: a text line, a conditional title, a question group
  with its headline, or a question.
\<close>

datatype Entry = TextLine | ConditionalTitle | QuestionGroup string "Question list" | SingleQuestion Question

definition adapter_feature :: Condition where
  "adapter_feature = Contains ''features'' (Str ''adapter'')"

definition questionsAndText :: "ActionsAndTransformers \<Rightarrow> Entry list" where
  "questionsAndText lib =
   [TextLine, TextLine, TextLine, TextLine, TextLine, TextLine,
    ConditionalTitle, ConditionalTitle,
    QuestionGroup ''Let's get started with a few questions about your project!''
     [(question ''input'' ''adapterName'')
        \<lparr>resultTransform := Some (transformAdapterName lib),
         action := Some (checkAdapterName lib)\<rparr>,
      (question ''input'' ''title'')\<lparr>action := Some (checkTitle lib)\<rparr>,
      (question ''input'' ''description'')
        \<lparr>optional := True, resultTransform := Some (transformDescription lib)\<rparr>,
      (question ''input'' ''keywords'')
        \<lparr>optional := True, resultTransform := Some (transformKeywords lib)\<rparr>,
      (question ''input'' ''contributors'')
        \<lparr>optional := True, resultTransform := Some (transformContributors lib)\<rparr>,
      (question ''web_upload'' ''icon'')
        \<lparr>condition := OneCondition (Value ''cli'' (Bool False)), optional := True\<rparr>],
    QuestionGroup ''Nice! Let's get technical...''
     [(question ''select'' ''expert'')\<lparr>optional := True\<rparr>,
      styledMultiselect ((question [] ''features'')
        \<lparr>action := Some (checkMinSelections lib ''feature'' 1)\<rparr>),
      styledMultiselect ((question [] ''adminFeatures'')
        \<lparr>condition := OneCondition adapter_feature\<rparr>),
      (question ''select'' ''type'')\<lparr>condition := OneCondition adapter_feature\<rparr>,
      (question ''select'' ''type'')
        \<lparr>condition := OneCondition (DoesNotContain ''features'' (Str ''adapter''))\<rparr>,
      (question ''select'' ''startMode'')\<lparr>condition := OneCondition adapter_feature\<rparr>,
      (question ''select'' ''scheduleStartOnChange'')
        \<lparr>condition := OneCondition (Value ''startMode'' (Str ''schedule''))\<rparr>,
      (question ''select'' ''connectionType'')
        \<lparr>condition := OneCondition adapter_feature, optional := True\<rparr>,
      (question ''select'' ''dataSource'')
        \<lparr>condition := OneCondition adapter_feature, optional := True\<rparr>,
      (question ''select'' ''connectionIndicator'')
        \<lparr>condition := OneCondition adapter_feature\<rparr>,
      (question ''web_unknown'' ''adapterSettings'')
        \<lparr>condition := AllConditions [adapter_feature, Value ''cli'' (Bool False)],
         optional := True\<rparr>,
      (question ''select'' ''language'')\<lparr>condition := OneCondition adapter_feature\<rparr>,
      (question ''select'' ''adminReact'')\<lparr>condition := AllConditions [adapter_feature]\<rparr>,
      (question ''select'' ''tabReact'')
        \<lparr>condition := AllConditions [Contains ''adminFeatures'' (Str ''tab'')]\<rparr>,
      styledMultiselect ((question [] ''tools'')
        \<lparr>condition := OneCondition (Value ''language'' (Str ''JavaScript''))\<rparr>),
      styledMultiselect ((question [] ''tools'')
        \<lparr>condition := OneCondition (Value ''language'' (Str ''TypeScript'')),
         action := Some (checkTypeScriptTools lib)\<rparr>),
      (question ''select'' ''indentation'')\<lparr>condition := OneCondition adapter_feature\<rparr>,
      (question ''select'' ''quotes'')\<lparr>condition := OneCondition adapter_feature\<rparr>,
      (question ''select'' ''es6class'')\<lparr>condition := OneCondition adapter_feature\<rparr>],
    QuestionGroup ''Almost done! Just a few administrative details...''
     [(question ''input'' ''authorName'')\<lparr>action := Some (checkAuthorName lib)\<rparr>,
      (question ''input'' ''authorGithub'')\<lparr>action := Some (checkAuthorName lib)\<rparr>,
      (question ''input'' ''authorEmail'')\<lparr>action := Some (checkEmail lib)\<rparr>,
      question ''select'' ''gitRemoteProtocol'',
      (question ''select'' ''gitCommit'')
        \<lparr>condition := OneCondition (Value ''cli'' (Bool True))\<rparr>,
      question ''select'' ''license'',
      question ''select'' ''ci'',
      question ''select'' ''dependabot''],
    TextLine, TextLine]"

text \<open>
  \<^verbatim>\<open>isQuestionGroup\<close> and the \<^verbatim>\<open>filter\<close> / \<^verbatim>\<open>map\<close> / \<^verbatim>\<open>reduce\<close> chain of
  \<^verbatim>\<open>questions\<close>: strings and functions are dropped, a group gives its questions, a
  question gives itself, and the lists are concatenated in order.
\<close>

fun isTextOrFunction :: "Entry \<Rightarrow> bool" where
  "isTextOrFunction TextLine = True"
| "isTextOrFunction ConditionalTitle = True"
| "isTextOrFunction _ = False"

fun questionsOf :: "Entry \<Rightarrow> Question list" where
  "questionsOf (QuestionGroup h qs) = qs"
| "questionsOf (SingleQuestion q) = [q]"
| "questionsOf _ = []"

definition questions :: "ActionsAndTransformers \<Rightarrow> Question list" where
  "questions lib =
     foldl (\<lambda>arr next. arr @ next) []
       (map questionsOf (filter (\<lambda>q. \<not> isTextOrFunction q) (questionsAndText lib)))"

section \<open>Errors\<close>

text \<open>
  The three \<^verbatim>\<open>throw new Error(...)\<close> of the pipeline, and the message each carries.
\<close>

datatype Error = MissingAnswer string | ExtraneousAnswer string | ValidationError string

fun message :: "Error \<Rightarrow> string" where
  "message (MissingAnswer n) = ''Missing answer '' @ [CHR 0x22] @ n @ [CHR 0x22] @ ''!''"
| "message (ExtraneousAnswer n) =
     ''Extraneous answer '' @ [CHR 0x22] @ n @ [CHR 0x22] @ '' given!''"
| "message (ValidationError s) = s"

section \<open>checkAnswers\<close>

text \<open>
  The loop of \<^verbatim>\<open>checkAnswers\<close> over the remaining questions. \<open>all\<close> is the whole
  \<^verbatim>\<open>questions\<close> array, which the inner \<^verbatim>\<open>filter\<close> reads. The result is the outcome
  (\<open>Inl\<close> the thrown error, \<open>Inr ()\<close> a normal return) and the answer object as the
  call leaves it.
\<close>

fun checkAnswers_loop ::
  "Question list \<Rightarrow> Question list \<Rightarrow> Answers \<Rightarrow> (Error + unit) \<times> Answers" where
  "checkAnswers_loop all [] answers = (Inr (), answers)"
| "checkAnswers_loop all (q # qs) answers =
     (let answer = answers (name q);
          conditionFulfilled = testCondition (condition q) answers
      in if \<not> optional q \<and> conditionFulfilled \<and> answer = None then
           (Inl (MissingAnswer (name q)), answers)
         else if \<not> conditionFulfilled \<and> answer \<noteq> None then
           (if length (filter (\<lambda>qq. name qq = name q) all) > 0 then
              checkAnswers_loop all qs answers
            else (Inl (ExtraneousAnswer (name q)), answers))
         else checkAnswers_loop all qs answers)"

definition checkAnswers :: "ActionsAndTransformers \<Rightarrow> Answers \<Rightarrow> (Error + unit) \<times> Answers" where
  "checkAnswers lib answers = checkAnswers_loop (questions lib) (questions lib) answers"

section \<open>formatAnswers\<close>

text \<open>
  The loop of \<^verbatim>\<open>formatAnswers\<close>: the condition is tested against the answer object
  as it is when the question is reached; \<^verbatim>\<open>answers[q.name] = transformed\<close> is the
  update of the object, and the object is what the function returns. An awaited promise
  is the value it resolves to: the awaits are sequential.
\<close>

fun formatAnswers_loop :: "Question list \<Rightarrow> Answers \<Rightarrow> Answers" where
  "formatAnswers_loop [] answers = answers"
| "formatAnswers_loop (q # qs) answers =
     (let conditionFulfilled = testCondition (condition q) answers
      in if \<not> conditionFulfilled then formatAnswers_loop qs answers
         else (case answers (name q) of
                 None \<Rightarrow> formatAnswers_loop qs answers
               | Some v \<Rightarrow>
                   (case resultTransform q of
                      None \<Rightarrow> formatAnswers_loop qs answers
                    | Some f \<Rightarrow>
                        (let transformed = f v
                         in formatAnswers_loop qs (answers(name q := transformed))))))"

definition formatAnswers :: "ActionsAndTransformers \<Rightarrow> Answers \<Rightarrow> Answers" where
  "formatAnswers lib answers = formatAnswers_loop (questions lib) answers"

text \<open>
  The spec's words for one question of the pass: if the condition is true against the
  current answer set and both the answer and the transform exist, the answer is replaced
  by the transformed value; otherwise the answer set stays as it is.
\<close>

definition applyTransform :: "Answers \<Rightarrow> Question \<Rightarrow> Answers" where
  "applyTransform answers q =
     (case (testCondition (condition q) answers, answers (name q), resultTransform q) of
        (True, Some v, Some f) \<Rightarrow> answers(name q := f v)
      | _ \<Rightarrow> answers)"

section \<open>validateAnswers\<close>

text \<open>
  The loop of \<^verbatim>\<open>validateAnswers\<close>. Besides the outcome and the answer object, the
  result lists the names of the questions whose \<^verbatim>\<open>action\<close> was called, in call order:
  \<open>invoked\<close> is that list so far. \<^verbatim>\<open>disableValidation.indexOf(q.name) > -1\<close> is
  membership in the list.
\<close>

fun validateAnswers_loop ::
  "Question list \<Rightarrow> string list \<Rightarrow> string list \<Rightarrow> Answers
     \<Rightarrow> (Error + unit) \<times> string list \<times> Answers" where
  "validateAnswers_loop [] disableValidation invoked answers = (Inr (), invoked, answers)"
| "validateAnswers_loop (q # qs) disableValidation invoked answers =
     (let conditionFulfilled = testCondition (condition q) answers
      in if \<not> conditionFulfilled then validateAnswers_loop qs disableValidation invoked answers
         else (case action q of
                 None \<Rightarrow> validateAnswers_loop qs disableValidation invoked answers
               | Some act \<Rightarrow>
                   if name q \<in> set disableValidation
                   then validateAnswers_loop qs disableValidation invoked answers
                   else (let testResult = act (answers (name q))
                         in case testResult of
                              CheckMessage s \<Rightarrow>
                                (Inl (ValidationError s), invoked @ [name q], answers)
                            | CheckTrue \<Rightarrow>
                                validateAnswers_loop qs disableValidation
                                  (invoked @ [name q]) answers)))"

definition validateAnswers ::
  "ActionsAndTransformers \<Rightarrow> Answers \<Rightarrow> string list
     \<Rightarrow> (Error + unit) \<times> string list \<times> Answers" where
  "validateAnswers lib answers disableValidation =
     validateAnswers_loop (questions lib) disableValidation [] answers"

text \<open>
  What the validator of a question returns on the current answer, if it has one; and the
  questions a validation pass does not skip.
\<close>

definition validatorResult :: "Answers \<Rightarrow> Question \<Rightarrow> CheckResult option" where
  "validatorResult answers q = map_option (\<lambda>act. act (answers (name q))) (action q)"

definition validated :: "Answers \<Rightarrow> string list \<Rightarrow> Question \<Rightarrow> bool" where
  "validated answers disableValidation q =
     (testCondition (condition q) answers \<and> action q \<noteq> None
      \<and> name q \<notin> set disableValidation)"

section \<open>getDefaultAnswer\<close>

definition getDefaultAnswer :: "string \<Rightarrow> Answer option" where
  "getDefaultAnswer key =
     (if key = ''adapterSettings'' then
        Some (SettingsArr
          [BooleanAdapterSettings ''option1'' None (Some True),
           StringAdapterSettings ''option2'' None (Some ''42'')])
      else if key = ''keywords'' then
        Some (Arr [Str ''ioBroker'', Str ''template'', Str ''Smart Home'',
                   Str ''home automation''])
      else None)"

section \<open>Migration callbacks\<close>

text \<open>
  A JavaScript string is a sequence of 16-bit code units; the file names, the manifest's
  ids and the main file's text are such strings. \<open>js\<close> gives the code units of an
  ASCII literal of the source.
\<close>

type_synonym jsstring = "16 word list"

definition js :: "string \<Rightarrow> jsstring" where
  "js s = map (\<lambda>c. word_of_nat (of_char c)) s"

text \<open>
  The \<^verbatim>\<open>MigrationContext\<close> class is not among the sources; the callbacks take it as a
  parameter. Of its members, the three callbacks below read the adapter manifest
  \<^verbatim>\<open>ioPackageJson\<close> (with, as the spec has it, an optional \<^verbatim>\<open>instanceObjects\<close> array of
  objects with an \<^verbatim>\<open>_id\<close>), the query \<^verbatim>\<open>hasFilesWithExtension(dir, ext, filter)\<close> and
  \<^verbatim>\<open>getMainFileContent()\<close>. An awaited query is its result.
\<close>

record InstanceObject =
  obj_id :: "jsstring option"

record IoPackageJson =
  instanceObjects :: "InstanceObject list option"

record MigrationContext =
  ioPackageJson :: IoPackageJson
  hasFilesWithExtension :: "jsstring \<Rightarrow> jsstring \<Rightarrow> (jsstring \<Rightarrow> bool) \<Rightarrow> bool"
  getMainFileContent :: jsstring

text \<open>\<^verbatim>\<open>String.prototype.endsWith\<close> and \<^verbatim>\<open>startsWith\<close>, on code units.\<close>

definition endsWith :: "'a list \<Rightarrow> 'a list \<Rightarrow> bool" where
  "endsWith s p = (length p \<le> length s \<and> drop (length s - length p) s = p)"

definition startsWith :: "'a list \<Rightarrow> 'a list \<Rightarrow> bool" where
  "startsWith s p = (take (length p) s = p)"

text \<open>The \<^verbatim>\<open>migrate\<close> callback of the \<^verbatim>\<open>language\<close> question.\<close>

definition migrate_language :: "MigrationContext \<Rightarrow> Answer" where
  "migrate_language ctx =
     (if hasFilesWithExtension ctx (js ''src'') (js ''.ts'') (\<lambda>f. \<not> endsWith f (js ''.d.ts''))
      then Val (Str ''TypeScript'') else Val (Str ''JavaScript''))"

text \<open>
  The \<^verbatim>\<open>migrate\<close> callback of the \<^verbatim>\<open>connectionIndicator\<close> question:
  \<^verbatim>\<open>instanceObjects?.some(o => o._id === "info.connection")\<close> is \<^verbatim>\<open>undefined\<close>, hence
  falsy, when there is no \<^verbatim>\<open>instanceObjects\<close>.
\<close>

definition migrate_connectionIndicator :: "MigrationContext \<Rightarrow> Answer" where
  "migrate_connectionIndicator ctx =
     (if (case instanceObjects (ioPackageJson ctx) of
            None \<Rightarrow> False
          | Some objs \<Rightarrow> list_ex (\<lambda>obj. obj_id obj = Some (js ''info.connection'')) objs)
      then Val (Str ''yes'') else Val (Str ''no''))"

text \<open>
  The regular expression \<^verbatim>\<open>/^[ \t]*class/gm\<close>, which has no \<^verbatim>\<open>u\<close> flag and so works
  on code units. With the \<^verbatim>\<open>m\<close> flag, \<^verbatim>\<open>^\<close> matches at the start of the text and
  after every line terminator of the language: line feed, carriage return, line
  separator (U+2028) and paragraph separator (U+2029). The class \<^verbatim>\<open>[ \t]\<close> is space
  and tab. \<open>matchLiteral p s\<close> says that the literal \<open>p\<close> matches at the head of
  \<open>s\<close>, unit by unit. \<open>matchClassHere s\<close> says that \<^verbatim>\<open>[ \t]*class\<close> matches at the head
  of \<open>s\<close>: the star takes one more space or tab, or stops and \<^verbatim>\<open>class\<close> follows.
  \<open>matchClass b s\<close> scans \<open>s\<close> for a match, \<open>b\<close> saying whether \<^verbatim>\<open>^\<close> matches at
  the head of \<open>s\<close>. \<^verbatim>\<open>String.prototype.match\<close> with the \<^verbatim>\<open>g\<close> flag gives \<^verbatim>\<open>null\<close>
  when there is no match and a non-empty array otherwise, so the test is whether a match
  exists.
\<close>

definition isLineTerminator :: "16 word \<Rightarrow> bool" where
  "isLineTerminator c = (c = 0x000A \<or> c = 0x000D \<or> c = 0x2028 \<or> c = 0x2029)"

definition isSpaceOrTab :: "16 word \<Rightarrow> bool" where
  "isSpaceOrTab c = (c = 0x0020 \<or> c = 0x0009)"

fun matchLiteral :: "jsstring \<Rightarrow> jsstring \<Rightarrow> bool" where
  "matchLiteral [] s = True"
| "matchLiteral (p # ps) [] = False"
| "matchLiteral (p # ps) (c # r) = (c = p \<and> matchLiteral ps r)"

fun matchClassHere :: "jsstring \<Rightarrow> bool" where
  "matchClassHere [] = matchLiteral (js ''class'') []"
| "matchClassHere (c # r) =
     ((isSpaceOrTab c \<and> matchClassHere r) \<or> matchLiteral (js ''class'') (c # r))"

fun matchClass :: "bool \<Rightarrow> jsstring \<Rightarrow> bool" where
  "matchClass b [] = (b \<and> matchClassHere [])"
| "matchClass b (c # r) = ((b \<and> matchClassHere (c # r)) \<or> matchClass (isLineTerminator c) r)"

text \<open>The \<^verbatim>\<open>migrate\<close> callback of the \<^verbatim>\<open>es6class\<close> question.\<close>

definition migrate_es6class :: "MigrationContext \<Rightarrow> Answer" where
  "migrate_es6class ctx =
     (if matchClass True (getMainFileContent ctx) then Val (Str ''yes'') else Val (Str ''no''))"

text \<open>
  The claim's words, written on their own and not through the matcher: the lines of a
  text are what lies between its line breaks (LF, CR, U+2028, U+2029), and a line begins
  with \<^verbatim>\<open>class\<close> after spaces and tabs if, once its leading spaces and tabs are
  dropped, its first five code units are those of \<^verbatim>\<open>class\<close>.
\<close>

definition lineBreaks :: "16 word list" where
  "lineBreaks = [0x000A, 0x000D, 0x2028, 0x2029]"

fun splitLines :: "jsstring \<Rightarrow> jsstring list" where
  "splitLines [] = [[]]"
| "splitLines (c # r) =
     (if c \<in> set lineBreaks then [] # splitLines r
      else (case splitLines r of [] \<Rightarrow> [[c]] | l # ls \<Rightarrow> (c # l) # ls))"

definition beginsWithClass :: "jsstring \<Rightarrow> bool" where
  "beginsWithClass l = startsWith (dropWhile (\<lambda>c. c \<in> {0x0020, 0x0009}) l) (js ''class'')"

section \<open>Sample inputs\<close>

text \<open>
  A stand-in for the validators and transformers, to run the pipeline on concrete answer
  sets: a text check fails on a missing or empty text, the selection check on too few
  selections, the tools check on Prettier without ESLint; an empty description is transformed to
  \<^verbatim>\<open>undefined\<close>, a keyword text to an array, and the other transforms change nothing.
\<close>

definition nonEmpty :: "string \<Rightarrow> QuestionAction" where
  "nonEmpty msg a = (case a of Some (Val (Str (c # s))) \<Rightarrow> CheckTrue | _ \<Rightarrow> CheckMessage msg)"

definition sample_lib :: ActionsAndTransformers where
  "sample_lib =
     \<lparr>checkAdapterName = nonEmpty ''Please enter an adapter name!'',
      checkAuthorName = nonEmpty ''Please enter a valid name!'',
      checkEmail = nonEmpty ''Please enter a valid email address!'',
      checkMinSelections = (\<lambda>kind n a.
         case a of Some (Arr xs) \<Rightarrow>
                     if int (length xs) < n then CheckMessage (''Please select a '' @ kind)
                     else CheckTrue
                 | _ \<Rightarrow> CheckMessage (''Please select a '' @ kind)),
      checkTitle = nonEmpty ''Please enter a title!'',
      checkTypeScriptTools = (\<lambda>a.
         case a of Some (Arr xs) \<Rightarrow>
                     if Str ''Prettier'' \<in> set xs \<and> Str ''ESLint'' \<notin> set xs
                     then CheckMessage ''ESLint must be selected to use Prettier!''
                     else CheckTrue
                 | _ \<Rightarrow> CheckTrue),
      transformAdapterName = Some,
      transformContributors = Some,
      transformDescription = (\<lambda>v. case v of Val (Str []) \<Rightarrow> None | _ \<Rightarrow> Some v),
      transformKeywords = (\<lambda>v. case v of Val (Str k) \<Rightarrow> Some (Arr [Str k]) | _ \<Rightarrow> Some v)\<rparr>"

text \<open>\<^verbatim>\<open>baseAnswers\<close> of the repository's tests, as a list of key and value.\<close>

definition baseAnswers :: "(string \<times> Answer) list" where
  "baseAnswers =
     [(''adapterName'', Val (Str ''test-adapter'')),
      (''title'', Val (Str ''Is used to test the creator'')),
      (''startMode'', Val (Str ''daemon'')),
      (''features'', Arr [Str ''adapter'']),
      (''connectionIndicator'', Val (Str ''no'')),
      (''connectionType'', Val (Str ''local'')),
      (''dataSource'', Val (Str ''push'')),
      (''adminFeatures'', Arr []),
      (''type'', Val (Str ''general'')),
      (''language'', Val (Str ''TypeScript'')),
      (''adminReact'', Val (Str ''no'')),
      (''tabReact'', Val (Str ''no'')),
      (''tools'', Arr [Str ''ESLint'']),
      (''indentation'', Val (Str ''Tab'')),
      (''quotes'', Val (Str ''double'')),
      (''es6class'', Val (Str ''no'')),
      (''authorName'', Val (Str ''Al Calzone'')),
      (''authorGithub'', Val (Str ''AlCalzone'')),
      (''authorEmail'', Val (Str ''al@calzo.ne'')),
      (''gitRemoteProtocol'', Val (Str ''HTTPS'')),
      (''ci'', Val (Str ''gh-actions'')),
      (''dependabot'', Val (Str ''yes'')),
      (''license'', Val (Str ''MIT License''))]"

text \<open>The tests' \<^verbatim>\<open>noTitle\<close>: \<^verbatim>\<open>baseAnswers\<close> without \<^verbatim>\<open>title\<close>.\<close>

definition noTitle :: Answers where
  "noTitle = map_of (filter (\<lambda>kv. fst kv \<noteq> ''title'') baseAnswers)"

text \<open>The answers of the tests' "Widget" case.\<close>

definition widgetAnswers :: Answers where
  "widgetAnswers = map_of
     [(''adapterName'', Val (Str ''test-widget'')),
      (''title'', Val (Str ''Is used to test the creator'')),
      (''features'', Arr [Str ''vis'']),
      (''type'', Val (Str ''visualization-widgets'')),
      (''indentation'', Val (Str ''Tab'')),
      (''quotes'', Val (Str ''double'')),
      (''authorName'', Val (Str ''Al Calzone'')),
      (''authorGithub'', Val (Str ''AlCalzone'')),
      (''authorEmail'', Val (Str ''al@calzo.ne'')),
      (''gitRemoteProtocol'', Val (Str ''HTTPS'')),
      (''ci'', Val (Str ''gh-actions'')),
      (''dependabot'', Val (Str ''yes'')),
      (''license'', Val (Str ''MIT License''))]"

text \<open>An answer set with the adapter feature selected and nothing else.\<close>

definition onlyFeatures :: Answers where
  "onlyFeatures = map_of [(''features'', Arr [Str ''adapter''])]"

text \<open>An answer set with an empty adapter name and an empty title, and nothing else.\<close>

definition emptyNameAndTitle :: Answers where
  "emptyNameAndTitle = map_of [(''adapterName'', Val (Str [])), (''title'', Val (Str []))]"

text \<open>
  An answer set with a keyword text and an empty description, for the transformation
  pass.
\<close>

definition rawTexts :: Answers where
  "rawTexts = map_of
     [(''adapterName'', Val (Str ''test-adapter'')),
      (''description'', Val (Str [])),
      (''keywords'', Val (Str ''lights''))]"

text \<open>
  A migration context: a manifest with a connection state object, a source directory
  with a declaration file and a TypeScript file, and a main file whose class declaration
  follows a line separator (U+2028) and is indented by a tab and a space.
\<close>

definition sampleContext :: MigrationContext where
  "sampleContext =
     \<lparr>ioPackageJson = \<lparr>instanceObjects =
        Some [\<lparr>obj_id = Some (js ''info'')\<rparr>, \<lparr>obj_id = Some (js ''info.connection'')\<rparr>]\<rparr>,
      hasFilesWithExtension = (\<lambda>dir ext flt.
        list_ex (\<lambda>f. endsWith f ext \<and> flt f)
          (if dir = js ''src'' then [js ''src/lib/adapter-config.d.ts'', js ''src/main.ts'']
           else [])),
      getMainFileContent = js ''a = 1'' @ [0x2028, 0x0009] @ js '' class A {}''\<rparr>"

text \<open>
  A second context: no instance objects in the manifest, only a declaration file in the
  source directory, and a main file in which \<^verbatim>\<open>class\<close> occurs but never at the start
  of a line.
\<close>

definition plainContext :: MigrationContext where
  "plainContext =
     \<lparr>ioPackageJson = \<lparr>instanceObjects = None\<rparr>,
      hasFilesWithExtension = (\<lambda>dir ext flt.
        list_ex (\<lambda>f. endsWith f ext \<and> flt f)
          (if dir = js ''src'' then [js ''src/lib/adapter-config.d.ts''] else [])),
      getMainFileContent = js ''subclass A'' @ [0x000D, 0x000A] @ js ''x class''\<rparr>"

section \<open>The question table\<close>

lemmas table_defs = questions_def questionsAndText_def question_def styledMultiselect_def

text \<open>The table with every record written out.\<close>

lemma questions_table:
  "questions lib =
    [\<lparr>name = ''adapterName'', qtype = ''input'', condition = NoCondition,
      optional = False, resultTransform = Some (transformAdapterName lib), action = Some (checkAdapterName lib)\<rparr>,
     \<lparr>name = ''title'', qtype = ''input'', condition = NoCondition,
      optional = False, resultTransform = None, action = Some (checkTitle lib)\<rparr>,
     \<lparr>name = ''description'', qtype = ''input'', condition = NoCondition,
      optional = True, resultTransform = Some (transformDescription lib), action = None\<rparr>,
     \<lparr>name = ''keywords'', qtype = ''input'', condition = NoCondition,
      optional = True, resultTransform = Some (transformKeywords lib), action = None\<rparr>,
     \<lparr>name = ''contributors'', qtype = ''input'', condition = NoCondition,
      optional = True, resultTransform = Some (transformContributors lib), action = None\<rparr>,
     \<lparr>name = ''icon'', qtype = ''web_upload'', condition = OneCondition (Value ''cli'' (Bool False)),
      optional = True, resultTransform = None, action = None\<rparr>,
     \<lparr>name = ''expert'', qtype = ''select'', condition = NoCondition,
      optional = True, resultTransform = None, action = None\<rparr>,
     \<lparr>name = ''features'', qtype = ''multiselect'', condition = NoCondition,
      optional = False, resultTransform = None, action = Some (checkMinSelections lib ''feature'' 1)\<rparr>,
     \<lparr>name = ''adminFeatures'', qtype = ''multiselect'', condition = OneCondition adapter_feature,
      optional = False, resultTransform = None, action = None\<rparr>,
     \<lparr>name = ''type'', qtype = ''select'', condition = OneCondition adapter_feature,
      optional = False, resultTransform = None, action = None\<rparr>,
     \<lparr>name = ''type'', qtype = ''select'', condition = OneCondition (DoesNotContain ''features'' (Str ''adapter'')),
      optional = False, resultTransform = None, action = None\<rparr>,
     \<lparr>name = ''startMode'', qtype = ''select'', condition = OneCondition adapter_feature,
      optional = False, resultTransform = None, action = None\<rparr>,
     \<lparr>name = ''scheduleStartOnChange'', qtype = ''select'', condition = OneCondition (Value ''startMode'' (Str ''schedule'')),
      optional = False, resultTransform = None, action = None\<rparr>,
     \<lparr>name = ''connectionType'', qtype = ''select'', condition = OneCondition adapter_feature,
      optional = True, resultTransform = None, action = None\<rparr>,
     \<lparr>name = ''dataSource'', qtype = ''select'', condition = OneCondition adapter_feature,
      optional = True, resultTransform = None, action = None\<rparr>,
     \<lparr>name = ''connectionIndicator'', qtype = ''select'', condition = OneCondition adapter_feature,
      optional = False, resultTransform = None, action = None\<rparr>,
     \<lparr>name = ''adapterSettings'', qtype = ''web_unknown'', condition = AllConditions [adapter_feature, Value ''cli'' (Bool False)],
      optional = True, resultTransform = None, action = None\<rparr>,
     \<lparr>name = ''language'', qtype = ''select'', condition = OneCondition adapter_feature,
      optional = False, resultTransform = None, action = None\<rparr>,
     \<lparr>name = ''adminReact'', qtype = ''select'', condition = AllConditions [adapter_feature],
      optional = False, resultTransform = None, action = None\<rparr>,
     \<lparr>name = ''tabReact'', qtype = ''select'', condition = AllConditions [Contains ''adminFeatures'' (Str ''tab'')],
      optional = False, resultTransform = None, action = None\<rparr>,
     \<lparr>name = ''tools'', qtype = ''multiselect'', condition = OneCondition (Value ''language'' (Str ''JavaScript'')),
      optional = False, resultTransform = None, action = None\<rparr>,
     \<lparr>name = ''tools'', qtype = ''multiselect'', condition = OneCondition (Value ''language'' (Str ''TypeScript'')),
      optional = False, resultTransform = None, action = Some (checkTypeScriptTools lib)\<rparr>,
     \<lparr>name = ''indentation'', qtype = ''select'', condition = OneCondition adapter_feature,
      optional = False, resultTransform = None, action = None\<rparr>,
     \<lparr>name = ''quotes'', qtype = ''select'', condition = OneCondition adapter_feature,
      optional = False, resultTransform = None, action = None\<rparr>,
     \<lparr>name = ''es6class'', qtype = ''select'', condition = OneCondition adapter_feature,
      optional = False, resultTransform = None, action = None\<rparr>,
     \<lparr>name = ''authorName'', qtype = ''input'', condition = NoCondition,
      optional = False, resultTransform = None, action = Some (checkAuthorName lib)\<rparr>,
     \<lparr>name = ''authorGithub'', qtype = ''input'', condition = NoCondition,
      optional = False, resultTransform = None, action = Some (checkAuthorName lib)\<rparr>,
     \<lparr>name = ''authorEmail'', qtype = ''input'', condition = NoCondition,
      optional = False, resultTransform = None, action = Some (checkEmail lib)\<rparr>,
     \<lparr>name = ''gitRemoteProtocol'', qtype = ''select'', condition = NoCondition,
      optional = False, resultTransform = None, action = None\<rparr>,
     \<lparr>name = ''gitCommit'', qtype = ''select'', condition = OneCondition (Value ''cli'' (Bool True)),
      optional = False, resultTransform = None, action = None\<rparr>,
     \<lparr>name = ''license'', qtype = ''select'', condition = NoCondition,
      optional = False, resultTransform = None, action = None\<rparr>,
     \<lparr>name = ''ci'', qtype = ''select'', condition = NoCondition,
      optional = False, resultTransform = None, action = None\<rparr>,
     \<lparr>name = ''dependabot'', qtype = ''select'', condition = NoCondition,
      optional = False, resultTransform = None, action = None\<rparr>]"
  by (simp add: table_defs)

lemma questions_names:
  "map name (questions lib) =
    [''adapterName'', ''title'', ''description'', ''keywords'', ''contributors'', ''icon'',
     ''expert'', ''features'', ''adminFeatures'', ''type'', ''type'', ''startMode'',
     ''scheduleStartOnChange'', ''connectionType'', ''dataSource'', ''connectionIndicator'',
     ''adapterSettings'', ''language'', ''adminReact'', ''tabReact'', ''tools'', ''tools'',
     ''indentation'', ''quotes'', ''es6class'', ''authorName'', ''authorGithub'',
     ''authorEmail'', ''gitRemoteProtocol'', ''gitCommit'', ''license'', ''ci'', ''dependabot'']"
  by (simp add: questions_table)

lemma first_two_questions:
  "\<exists>q1 q2 rest. questions lib = q1 # q2 # rest
     \<and> name q1 = ''adapterName'' \<and> name q2 = ''title''
     \<and> condition q2 = NoCondition \<and> \<not> optional q2"
  by (simp add: questions_table)

lemma type_branches:
  "map condition (filter (\<lambda>q. name q = ''type'') (questions lib)) =
     [OneCondition (Contains ''features'' (Str ''adapter'')),
      OneCondition (DoesNotContain ''features'' (Str ''adapter''))]"
  by (simp add: questions_table adapter_feature_def)

lemma tools_branches:
  "map condition (filter (\<lambda>q. name q = ''tools'') (questions lib)) =
     [OneCondition (Value ''language'' (Str ''JavaScript'')),
      OneCondition (Value ''language'' (Str ''TypeScript''))]"
  by (simp add: questions_table)

text \<open>Every name but \<^verbatim>\<open>type\<close> and \<^verbatim>\<open>tools\<close> is on one record.\<close>

lemma distinct_filter_eq_le: "distinct xs \<Longrightarrow> length (filter (\<lambda>m. m = n) xs) \<le> 1"
  by (induction xs) (auto simp: filter_empty_conv)

lemma single_branch_names:
  "filter (\<lambda>m. m \<noteq> ''type'' \<and> m \<noteq> ''tools'') (map name (questions lib)) =
    [''adapterName'', ''title'', ''description'', ''keywords'', ''contributors'', ''icon'',
     ''expert'', ''features'', ''adminFeatures'', ''startMode'',
     ''scheduleStartOnChange'', ''connectionType'', ''dataSource'', ''connectionIndicator'',
     ''adapterSettings'', ''language'', ''adminReact'', ''tabReact'',
     ''indentation'', ''quotes'', ''es6class'', ''authorName'', ''authorGithub'',
     ''authorEmail'', ''gitRemoteProtocol'', ''gitCommit'', ''license'', ''ci'', ''dependabot'']"
  unfolding questions_names by simp

lemma single_branch_distinct:
  "distinct (filter (\<lambda>m. m \<noteq> ''type'' \<and> m \<noteq> ''tools'') (map name (questions lib)))"
  unfolding single_branch_names by simp

lemma other_names_once:
  assumes "n \<noteq> ''type''" "n \<noteq> ''tools''"
  shows "length (filter (\<lambda>q. name q = n) (questions lib)) \<le> 1"
proof -
  let ?keep = "\<lambda>m. m \<noteq> ''type'' \<and> m \<noteq> ''tools''"
  have "length (filter (\<lambda>q. name q = n) (questions lib)) =
        length (filter (\<lambda>m. m = n) (map name (questions lib)))"
    by (simp add: filter_map comp_def)
  also have "filter (\<lambda>m. m = n) (map name (questions lib)) =
        filter (\<lambda>m. m = n) (filter ?keep (map name (questions lib)))"
    using assms by (auto intro: filter_cong)
  also have "length \<dots> \<le> 1"
    using single_branch_distinct by (rule distinct_filter_eq_le)
  finally show ?thesis .
qed

section \<open>Completeness checking\<close>

text \<open>
  The inner test of the extraneous branch counts the records that share the name of the
  question at hand, that question included: for a question of the array the count is
  never zero.
\<close>

lemma branch_exists:
  "q \<in> set all \<Longrightarrow> 0 < length (filter (\<lambda>qq. name qq = name q) all)"
  by (auto simp: filter_empty_conv)

lemma loop_never_extraneous:
  "set qs \<subseteq> set all \<Longrightarrow> fst (checkAnswers_loop all qs a) \<noteq> Inl (ExtraneousAnswer n)"
proof (induction qs)
  case Nil
  then show ?case by simp
next
  case (Cons q qs)
  from Cons.prems have "q \<in> set all" by simp
  then have "0 < length (filter (\<lambda>qq. name qq = name q) all)"
    by (rule branch_exists)
  with Cons show ?case by (simp add: Let_def)
qed

lemma loop_store: "snd (checkAnswers_loop all qs a) = a"
  by (induction qs) (simp_all add: Let_def)

lemma loop_outcome:
  "set qs \<subseteq> set all \<Longrightarrow>
   fst (checkAnswers_loop all qs a) =
     (case find (\<lambda>q. \<not> optional q \<and> testCondition (condition q) a \<and> a (name q) = None) qs of
        None \<Rightarrow> Inr ()
      | Some q \<Rightarrow> Inl (MissingAnswer (name q)))"
proof (induction qs)
  case Nil
  then show ?case by simp
next
  case (Cons q qs)
  from Cons.prems have "q \<in> set all" by simp
  then have "0 < length (filter (\<lambda>qq. name qq = name q) all)"
    by (rule branch_exists)
  with Cons show ?case by (simp add: Let_def)
qed

lemma checkAnswers_outcome:
  "fst (checkAnswers lib a) =
     (case find (\<lambda>q. \<not> optional q \<and> testCondition (condition q) a \<and> a (name q) = None)
             (questions lib) of
        None \<Rightarrow> Inr ()
      | Some q \<Rightarrow> Inl (MissingAnswer (name q)))"
  unfolding checkAnswers_def by (rule loop_outcome) simp

text \<open>
  C1. The claim: whenever \<^verbatim>\<open>checkAnswers\<close> returns, no question whose name is on one
  record only has a false condition and a defined answer. The code does not do that: on
  the answers of the tests' "Widget" case, \<^verbatim>\<open>indentation\<close> is on one record, its
  condition (the adapter feature) is false, its answer is \<^verbatim>\<open>"Tab"\<close>, and
  \<^verbatim>\<open>checkAnswers\<close> returns normally. On no answer set does it throw the
  extraneous-answer error.
\<close>

theorem checkAnswers_accepts_extraneous_indentation:
  "fst (checkAnswers lib widgetAnswers) = Inr ()
   \<and> map (\<lambda>q. (testCondition (condition q) widgetAnswers, widgetAnswers (name q)))
         (filter (\<lambda>q. name q = ''indentation'') (questions lib))
       = [(False, Some (Val (Str ''Tab'')))]
   \<and> fst (checkAnswers lib a) \<noteq> Inl (ExtraneousAnswer n)"
proof (intro conjI)
  show "fst (checkAnswers lib widgetAnswers) = Inr ()"
    by (simp add: checkAnswers_def questions_table widgetAnswers_def adapter_feature_def)
  show "map (\<lambda>q. (testCondition (condition q) widgetAnswers, widgetAnswers (name q)))
         (filter (\<lambda>q. name q = ''indentation'') (questions lib))
       = [(False, Some (Val (Str ''Tab'')))]"
    by (simp add: questions_table widgetAnswers_def adapter_feature_def)
  show "fst (checkAnswers lib a) \<noteq> Inl (ExtraneousAnswer n)"
    unfolding checkAnswers_def by (rule loop_never_extraneous) simp
qed

text \<open>
  C2, as the claim states it, fails: an answer set can omit \<^verbatim>\<open>title\<close>, have the adapter
  feature selected, and get an error that names another question. With nothing but
  \<^verbatim>\<open>features\<close> answered, the error names \<^verbatim>\<open>adapterName\<close>, the first question of the
  table.
\<close>

theorem checkAnswers_missing_names_adapterName:
  "onlyFeatures ''title'' = None
   \<and> testSingleCondition (Contains ''features'' (Str ''adapter'')) onlyFeatures
   \<and> fst (checkAnswers sample_lib onlyFeatures) = Inl (MissingAnswer ''adapterName'')
   \<and> fst (checkAnswers sample_lib onlyFeatures) \<noteq> Inl (MissingAnswer ''title'')"
  by (simp add: checkAnswers_def questions_table onlyFeatures_def)

text \<open>
  C2, amended. The outcome of \<^verbatim>\<open>checkAnswers\<close> is decided by the first question, in
  declaration order, that is not optional, has a true condition and has no answer: if
  there is one, the error is the missing-answer error with its name and the message
  \<^verbatim>\<open>Missing answer "<name>"!\<close>; if there is none, the call returns. So a missing-answer
  error is thrown iff some question is not optional, active and unanswered. An answer set
  that has \<^verbatim>\<open>adapterName\<close> and omits \<^verbatim>\<open>title\<close> gets the error that names \<^verbatim>\<open>title\<close>.
\<close>

theorem checkAnswers_missing_answer:
  "fst (checkAnswers lib a) =
     (case find (\<lambda>q. \<not> optional q \<and> testCondition (condition q) a \<and> a (name q) = None)
             (questions lib) of
        None \<Rightarrow> Inr ()
      | Some q \<Rightarrow> Inl (MissingAnswer (name q)))
   \<and> ((\<exists>n. fst (checkAnswers lib a) = Inl (MissingAnswer n)) \<longleftrightarrow>
        (\<exists>q \<in> set (questions lib).
           \<not> optional q \<and> testCondition (condition q) a \<and> a (name q) = None))
   \<and> (a ''adapterName'' \<noteq> None \<and> a ''title'' = None \<longrightarrow>
        fst (checkAnswers lib a) = Inl (MissingAnswer ''title''))
   \<and> message (MissingAnswer n) = ''Missing answer '' @ [CHR 0x22] @ n @ [CHR 0x22] @ ''!''"
proof (intro conjI)
  show "fst (checkAnswers lib a) =
     (case find (\<lambda>q. \<not> optional q \<and> testCondition (condition q) a \<and> a (name q) = None)
             (questions lib) of
        None \<Rightarrow> Inr ()
      | Some q \<Rightarrow> Inl (MissingAnswer (name q)))"
    by (rule checkAnswers_outcome)
  show "(\<exists>n. fst (checkAnswers lib a) = Inl (MissingAnswer n)) \<longleftrightarrow>
     (\<exists>q \<in> set (questions lib).
        \<not> optional q \<and> testCondition (condition q) a \<and> a (name q) = None)"
    unfolding checkAnswers_outcome
    by (auto simp: find_None_iff find_Some_iff split: option.splits)
  show "a ''adapterName'' \<noteq> None \<and> a ''title'' = None \<longrightarrow>
      fst (checkAnswers lib a) = Inl (MissingAnswer ''title'')"
  proof -
    obtain q1 q2 rest where "questions lib = q1 # q2 # rest"
      "name q1 = ''adapterName''" "name q2 = ''title''"
      "condition q2 = NoCondition" "\<not> optional q2"
      using first_two_questions by blast
    then show ?thesis unfolding checkAnswers_outcome by simp
  qed
  show "message (MissingAnswer n) = ''Missing answer '' @ [CHR 0x22] @ n @ [CHR 0x22] @ ''!''"
    by simp
qed

theorem checkAnswers_missing_answer_witness:
  "noTitle ''adapterName'' \<noteq> None \<and> noTitle ''title'' = None
   \<and> fst (checkAnswers sample_lib noTitle) = Inl (MissingAnswer ''title'')
   \<and> message (MissingAnswer ''title'') = ''Missing answer '' @ [CHR 0x22] @ ''title'' @ [CHR 0x22] @ ''!''"
proof -
  have h: "noTitle ''adapterName'' \<noteq> None \<and> noTitle ''title'' = None"
    by (simp add: noTitle_def baseAnswers_def)
  note whole = checkAnswers_missing_answer [of sample_lib noTitle "''title''"]
  note third = whole [THEN conjunct2, THEN conjunct2, THEN conjunct1]
  note fourth = whole [THEN conjunct2, THEN conjunct2, THEN conjunct2]
  from h third have "fst (checkAnswers sample_lib noTitle) = Inl (MissingAnswer ''title'')"
    by (rule rev_mp)
  with h fourth show ?thesis by (intro conjI) (elim conjE, assumption)+
qed

text \<open>
  C6. An answer set has an answer for \<^verbatim>\<open>type\<close> while the condition of a \<^verbatim>\<open>type\<close>
  record is false: the name is on more than one record and \<^verbatim>\<open>checkAnswers\<close> does not
  throw the extraneous-answer error for it. The same holds for every name that is on
  more than one record.
\<close>

theorem checkAnswers_multi_branch_exempt:
  "(a ''type'' \<noteq> None \<and> q \<in> set (questions lib) \<and> name q = ''type''
      \<and> \<not> testCondition (condition q) a
    \<longrightarrow> 1 < length (filter (\<lambda>qq. name qq = ''type'') (questions lib))
      \<and> fst (checkAnswers lib a) \<noteq> Inl (ExtraneousAnswer ''type''))
   \<and> (1 < length (filter (\<lambda>qq. name qq = n) (questions lib))
    \<longrightarrow> fst (checkAnswers lib a) \<noteq> Inl (ExtraneousAnswer n))"
proof -
  have "length (filter (\<lambda>qq. name qq = ''type'') (questions lib)) = 2"
    by (simp add: questions_table)
  moreover have "fst (checkAnswers lib a) \<noteq> Inl (ExtraneousAnswer m)" for m
    unfolding checkAnswers_def by (rule loop_never_extraneous) simp
  ultimately show ?thesis by simp
qed

theorem checkAnswers_multi_branch_exempt_witness:
  "widgetAnswers ''type'' \<noteq> None
   \<and> questions sample_lib ! 9 \<in> set (questions sample_lib)
   \<and> name (questions sample_lib ! 9) = ''type''
   \<and> \<not> testCondition (condition (questions sample_lib ! 9)) widgetAnswers
   \<and> 1 < length (filter (\<lambda>qq. name qq = ''type'') (questions sample_lib))
   \<and> fst (checkAnswers sample_lib widgetAnswers) \<noteq> Inl (ExtraneousAnswer ''type'')"
proof -
  have h: "widgetAnswers ''type'' \<noteq> None
   \<and> questions sample_lib ! 9 \<in> set (questions sample_lib)
   \<and> name (questions sample_lib ! 9) = ''type''
   \<and> \<not> testCondition (condition (questions sample_lib ! 9)) widgetAnswers"
    by (simp add: questions_table widgetAnswers_def adapter_feature_def)
  note whole = checkAnswers_multi_branch_exempt
    [of widgetAnswers "questions sample_lib ! 9" sample_lib "''type''"]
  from h whole [THEN conjunct1]
  have c: "1 < length (filter (\<lambda>qq. name qq = ''type'') (questions sample_lib))
      \<and> fst (checkAnswers sample_lib widgetAnswers) \<noteq> Inl (ExtraneousAnswer ''type'')"
    by (rule rev_mp)
  from c whole [THEN conjunct2]
  have "fst (checkAnswers sample_lib widgetAnswers) \<noteq> Inl (ExtraneousAnswer ''type'')"
    by (elim conjE impE) assumption+
  with h c show ?thesis by (intro conjI) (elim conjE, assumption)+
qed

lemma validate_loop_store: "snd (snd (validateAnswers_loop qs dis calls a)) = a"
  by (induction qs arbitrary: calls)
     (simp_all add: Let_def split: option.splits CheckResult.splits)

text \<open>
  C9. \<^verbatim>\<open>checkAnswers\<close> and \<^verbatim>\<open>validateAnswers\<close> leave the answer object as they
  found it, whether they return or throw. The validators are taken as functions of the
  answer value.
\<close>

theorem check_validate_keep_answers:
  "snd (checkAnswers lib a) = a \<and> snd (snd (validateAnswers lib a dis)) = a"
  by (simp add: checkAnswers_def validateAnswers_def loop_store validate_loop_store)

section \<open>Mutually exclusive branches\<close>

lemma filter_conj_le: "length (filter (\<lambda>x. A x \<and> B x) xs) \<le> length (filter A xs)"
  by (induction xs) auto

lemma type_exclusive:
  "\<not> (testCondition (OneCondition (Contains ''features'' (Str ''adapter''))) a
      \<and> testCondition (OneCondition (DoesNotContain ''features'' (Str ''adapter''))) a)"
  by (simp split: option.splits Answer.splits)

lemma tools_exclusive:
  "\<not> (testCondition (OneCondition (Value ''language'' (Str ''JavaScript''))) a
      \<and> testCondition (OneCondition (Value ''language'' (Str ''TypeScript''))) a)"
  by simp

lemma two_exclusive:
  assumes m: "map condition (filter (\<lambda>q. name q = n) qs) = [c1, c2]"
    and ex: "\<not> (testCondition c1 a \<and> testCondition c2 a)"
  shows "length (filter (\<lambda>q. name q = n \<and> testCondition (condition q) a) qs) \<le> 1"
proof -
  from m obtain q1 q2 where f: "filter (\<lambda>q. name q = n) qs = [q1, q2]"
    and c: "condition q1 = c1" "condition q2 = c2" by auto
  have "filter (\<lambda>q. name q = n \<and> testCondition (condition q) a) qs =
        filter (\<lambda>q. testCondition (condition q) a) (filter (\<lambda>q. name q = n) qs)"
    by (simp add: conj_commute)
  with f c ex show ?thesis by auto
qed

text \<open>
  C7. For every answer set and every name, at most one record of that name has a true
  condition. The two \<^verbatim>\<open>type\<close> records have the conditions "features contains adapter"
  and "features does not contain adapter", which are never both true; the two
  \<^verbatim>\<open>tools\<close> records have the conditions "language is JavaScript" and "language is
  TypeScript", which are never both true.
\<close>

theorem branches_mutually_exclusive:
  "length (filter (\<lambda>q. name q = n \<and> testCondition (condition q) a) (questions lib)) \<le> 1
   \<and> map condition (filter (\<lambda>q. name q = ''type'') (questions lib)) =
       [OneCondition (Contains ''features'' (Str ''adapter'')),
        OneCondition (DoesNotContain ''features'' (Str ''adapter''))]
   \<and> \<not> (testCondition (OneCondition (Contains ''features'' (Str ''adapter''))) a
        \<and> testCondition (OneCondition (DoesNotContain ''features'' (Str ''adapter''))) a)
   \<and> map condition (filter (\<lambda>q. name q = ''tools'') (questions lib)) =
       [OneCondition (Value ''language'' (Str ''JavaScript'')),
        OneCondition (Value ''language'' (Str ''TypeScript''))]
   \<and> \<not> (testCondition (OneCondition (Value ''language'' (Str ''JavaScript''))) a
        \<and> testCondition (OneCondition (Value ''language'' (Str ''TypeScript''))) a)"
proof (intro conjI)
  show "length (filter (\<lambda>q. name q = n \<and> testCondition (condition q) a) (questions lib)) \<le> 1"
  proof -
    consider "n = ''type''" | "n = ''tools''" | "n \<noteq> ''type''" "n \<noteq> ''tools''" by blast
    then show ?thesis
    proof cases
      case 1
      then show ?thesis using two_exclusive [OF type_branches type_exclusive] by simp
    next
      case 2
      then show ?thesis using two_exclusive [OF tools_branches tools_exclusive] by simp
    next
      case 3
      then have "length (filter (\<lambda>q. name q = n) (questions lib)) \<le> 1"
        by (rule other_names_once)
      with filter_conj_le [of "\<lambda>q. name q = n" "\<lambda>q. testCondition (condition q) a" "questions lib"]
      show ?thesis by simp
    qed
  qed
qed (rule type_branches type_exclusive tools_branches tools_exclusive)+

section \<open>Condition evaluation\<close>

text \<open>
  C8. Evaluation is a total function to the booleans. No condition is true; a list of
  conditions is the conjunction of its elements; when the answer set has no answer under
  the name a condition refers to, a \<^verbatim>\<open>value\<close> condition (of either shape) and a
  \<^verbatim>\<open>contains\<close> condition are false and a \<^verbatim>\<open>doesNotContain\<close> condition is true.
\<close>

theorem testCondition_absent_answer:
  "testCondition NoCondition a
   \<and> (testCondition (AllConditions cs) a \<longleftrightarrow> (\<forall>c \<in> set cs. testCondition (OneCondition c) a))
   \<and> (a n = None \<longrightarrow>
        \<not> testCondition (OneCondition (Value n v)) a
      \<and> \<not> testCondition (OneCondition (ValueOneOf n vs)) a
      \<and> \<not> testCondition (OneCondition (Contains n x)) a
      \<and> testCondition (OneCondition (DoesNotContain n x)) a)"
  by (simp add: list_all_iff)

theorem testCondition_absent_answer_witness:
  "onlyFeatures ''language'' = None
   \<and> \<not> testCondition (OneCondition (Value ''language'' (Str ''JavaScript''))) onlyFeatures
   \<and> \<not> testCondition (OneCondition (ValueOneOf ''language'' [Str ''JavaScript''])) onlyFeatures
   \<and> \<not> testCondition (OneCondition (Contains ''language'' (Str ''JavaScript''))) onlyFeatures
   \<and> testCondition (OneCondition (DoesNotContain ''language'' (Str ''JavaScript''))) onlyFeatures
   \<and> \<not> testCondition (AllConditions [adapter_feature, Value ''cli'' (Bool False)]) onlyFeatures"
  using testCondition_absent_answer
      [of onlyFeatures "[adapter_feature, Value ''cli'' (Bool False)]" "''language''"
        "Str ''JavaScript''" "[Str ''JavaScript'']" "Str ''JavaScript''"]
  by (simp add: onlyFeatures_def adapter_feature_def)

section \<open>Validation\<close>

lemma validate_loop_pass:
  "\<forall>q \<in> set (filter (validated a dis) qs). validatorResult a q = Some CheckTrue \<Longrightarrow>
   validateAnswers_loop qs dis calls a =
     (Inr (), calls @ map name (filter (validated a dis) qs), a)"
proof (induction qs arbitrary: calls)
  case Nil
  then show ?case by simp
next
  case (Cons q qs)
  then show ?case
    by (auto simp: Let_def validated_def validatorResult_def
          split: option.splits CheckResult.splits)
qed

lemma validate_loop_fail:
  "filter (validated a dis) qs = pre @ q # post \<Longrightarrow>
   \<forall>p \<in> set pre. validatorResult a p = Some CheckTrue \<Longrightarrow>
   validatorResult a q = Some (CheckMessage s) \<Longrightarrow>
   validateAnswers_loop qs dis calls a =
     (Inl (ValidationError s), calls @ map name pre @ [name q], a)"
proof (induction qs arbitrary: calls pre)
  case Nil
  then show ?case by simp
next
  case (Cons x qs)
  show ?case
  proof (cases "validated a dis x")
    case False
    with Cons.prems have "filter (validated a dis) qs = pre @ q # post" by simp
    from Cons.IH [OF this Cons.prems(2,3)] False show ?thesis
      by (auto simp: Let_def validated_def split: option.splits)
  next
    case True
    then obtain act where act: "action x = Some act" "testCondition (condition x) a"
        "name x \<notin> set dis"
      by (auto simp: validated_def)
    show ?thesis
    proof (cases pre)
      case Nil
      with Cons.prems True have "x = q" by simp
      with Cons.prems(3) act show ?thesis
        using Nil by (simp add: Let_def validatorResult_def)
    next
      case (Cons p pre')
      with Cons.prems True have x: "x = p"
        and rest: "filter (validated a dis) qs = pre' @ q # post"
        by simp_all
      from Cons.prems(2) Cons have pass: "validatorResult a p = Some CheckTrue"
        and pre': "\<forall>p \<in> set pre'. validatorResult a p = Some CheckTrue" by simp_all
      from Cons.IH [OF rest pre' Cons.prems(3)] pass act x Cons show ?thesis
        by (simp add: Let_def validatorResult_def)
    qed
  qed
qed

text \<open>
  C3. Of the questions in declaration order, a validation pass keeps those whose condition
  is true, that have a validator and whose name is not in the disable list. If the
  validator of every one of them passes, the pass returns normally, having called them
  all in order. If the first validator that returns a string is that of \<open>q\<close>, with
  the string \<open>s\<close>, the pass throws the error with the message \<open>s\<close>, and the
  validators called are those before \<open>q\<close> and that of \<open>q\<close>: none after it.
\<close>

theorem validateAnswers_fail_fast:
  "((\<forall>q \<in> set (filter (validated a dis) (questions lib)). validatorResult a q = Some CheckTrue)
      \<longrightarrow> fst (validateAnswers lib a dis) = Inr ()
        \<and> fst (snd (validateAnswers lib a dis)) =
            map name (filter (validated a dis) (questions lib)))
   \<and> (filter (validated a dis) (questions lib) = pre @ q # post
      \<and> (\<forall>p \<in> set pre. validatorResult a p = Some CheckTrue)
      \<and> validatorResult a q = Some (CheckMessage s)
      \<longrightarrow> fst (validateAnswers lib a dis) = Inl (ValidationError s)
        \<and> message (ValidationError s) = s
        \<and> fst (snd (validateAnswers lib a dis)) = map name pre @ [name q])"
  unfolding validateAnswers_def
  using validate_loop_pass [of a dis "questions lib" "[]"]
    validate_loop_fail [of a dis "questions lib" pre q post s "[]"]
  by simp

theorem validateAnswers_fail_fast_witness:
  "fst (validateAnswers sample_lib widgetAnswers []) = Inr ()
   \<and> fst (snd (validateAnswers sample_lib widgetAnswers [])) =
       [''adapterName'', ''title'', ''features'', ''authorName'', ''authorGithub'',
        ''authorEmail'']
   \<and> fst (validateAnswers sample_lib emptyNameAndTitle []) =
       Inl (ValidationError ''Please enter an adapter name!'')
   \<and> fst (snd (validateAnswers sample_lib emptyNameAndTitle [])) = [''adapterName'']
   \<and> fst (validateAnswers sample_lib emptyNameAndTitle [''adapterName'']) =
       Inl (ValidationError ''Please enter a title!'')
   \<and> fst (snd (validateAnswers sample_lib emptyNameAndTitle [''adapterName''])) = [''title'']"
proof -
  let ?qs = "questions sample_lib"
  note evals = questions_table validated_def adapter_feature_def
  note checks = validatorResult_def sample_lib_def nonEmpty_def
  have f0: "filter (validated widgetAnswers []) ?qs =
      [?qs ! 0, ?qs ! 1, ?qs ! 7, ?qs ! 25, ?qs ! 26, ?qs ! 27]"
    by (simp add: evals widgetAnswers_def)
  have names: "map name [?qs ! 0, ?qs ! 1, ?qs ! 7, ?qs ! 25, ?qs ! 26, ?qs ! 27] =
       [''adapterName'', ''title'', ''features'', ''authorName'', ''authorGithub'',
        ''authorEmail'']"
    by (simp add: questions_table)
  have pass: "\<forall>q \<in> set (filter (validated widgetAnswers []) ?qs).
      validatorResult widgetAnswers q = Some CheckTrue"
    unfolding f0 by (simp add: questions_table checks widgetAnswers_def)
  note first = validateAnswers_fail_fast
    [of widgetAnswers "[]" sample_lib, THEN conjunct1, THEN mp, OF pass, unfolded f0 names]
  have f1: "filter (validated emptyNameAndTitle []) ?qs = [] @ ?qs ! 0 # [?qs ! 1, ?qs ! 7, ?qs ! 25, ?qs ! 26, ?qs ! 27]"
    by (simp add: evals emptyNameAndTitle_def)
  have fail1: "validatorResult emptyNameAndTitle (?qs ! 0) =
      Some (CheckMessage ''Please enter an adapter name!'')"
    by (simp add: questions_table checks emptyNameAndTitle_def)
  have none: "\<forall>p \<in> set []. validatorResult emptyNameAndTitle p = Some CheckTrue"
    by simp
  have name0: "map name [] @ [name (?qs ! 0)] = [''adapterName'']"
    by (simp add: questions_table)
  note second = validateAnswers_fail_fast
    [of emptyNameAndTitle "[]" sample_lib "[]" "?qs ! 0" _ "''Please enter an adapter name!''",
      THEN conjunct2, THEN mp, OF conjI [OF f1 conjI [OF none fail1]], unfolded name0]
  have f2: "filter (validated emptyNameAndTitle [''adapterName'']) ?qs =
      [] @ ?qs ! 1 # [?qs ! 7, ?qs ! 25, ?qs ! 26, ?qs ! 27]"
    by (simp add: evals emptyNameAndTitle_def)
  have fail2: "validatorResult emptyNameAndTitle (?qs ! 1) =
      Some (CheckMessage ''Please enter a title!'')"
    by (simp add: questions_table checks emptyNameAndTitle_def)
  have name1: "map name [] @ [name (?qs ! 1)] = [''title'']"
    by (simp add: questions_table)
  note third = validateAnswers_fail_fast
    [of emptyNameAndTitle "[''adapterName'']" sample_lib "[]" "?qs ! 1" _
      "''Please enter a title!''",
      THEN conjunct2, THEN mp, OF conjI [OF f2 conjI [OF none fail2]], unfolded name1]
  from first second third show ?thesis by (intro conjI) (elim conjE, assumption)+
qed

section \<open>Transformation\<close>

lemma format_loop_fold: "formatAnswers_loop qs a = foldl applyTransform a qs"
  by (induction qs arbitrary: a)
     (simp_all add: Let_def applyTransform_def split: option.splits bool.splits)

text \<open>
  C4. \<^verbatim>\<open>formatAnswers\<close> is one pass from left to right over the questions in
  declaration order, each step working on the answer set the steps before it left, and
  it returns the answer set of the last step. A step replaces the answer by the
  transformed value if the condition is true against that answer set, the answer is
  defined and the question has a transform; otherwise it changes nothing.
\<close>

theorem formatAnswers_single_pass:
  "formatAnswers lib a = foldl applyTransform a (questions lib)
   \<and> formatAnswers_loop (q # qs) a = formatAnswers_loop qs (applyTransform a q)
   \<and> (testCondition (condition q) a \<and> a (name q) = Some v \<and> resultTransform q = Some f
        \<longrightarrow> applyTransform a q = a(name q := f v))
   \<and> (\<not> testCondition (condition q) a \<or> a (name q) = None \<or> resultTransform q = None
        \<longrightarrow> applyTransform a q = a)"
  by (auto simp: formatAnswers_def format_loop_fold applyTransform_def
        split: option.splits bool.splits)

theorem formatAnswers_single_pass_witness:
  "formatAnswers sample_lib rawTexts ''keywords'' = Some (Arr [Str ''lights''])
   \<and> formatAnswers sample_lib rawTexts ''description'' = None
   \<and> formatAnswers sample_lib rawTexts ''adapterName'' = Some (Val (Str ''test-adapter''))
   \<and> testCondition (condition (questions sample_lib ! 3)) rawTexts
   \<and> applyTransform rawTexts (questions sample_lib ! 3) =
       rawTexts(''keywords'' := Some (Arr [Str ''lights'']))
   \<and> \<not> testCondition (condition (questions sample_lib ! 5)) rawTexts
   \<and> applyTransform rawTexts (questions sample_lib ! 5) = rawTexts"
proof -
  note evals = questions_table adapter_feature_def rawTexts_def sample_lib_def
  note whole = formatAnswers_single_pass
  have run: "foldl applyTransform rawTexts (questions sample_lib) =
      rawTexts(''adapterName'' \<mapsto> Val (Str ''test-adapter''), ''description'' := None,
        ''keywords'' \<mapsto> Arr [Str ''lights''])"
    by (simp add: evals applyTransform_def)
  have out: "formatAnswers sample_lib rawTexts =
      rawTexts(''adapterName'' \<mapsto> Val (Str ''test-adapter''), ''description'' := None,
        ''keywords'' \<mapsto> Arr [Str ''lights''])"
    using whole [of sample_lib rawTexts, THEN conjunct1] run by (rule trans)
  have k: "testCondition (condition (questions sample_lib ! 3)) rawTexts
      \<and> rawTexts (name (questions sample_lib ! 3)) = Some (Val (Str ''lights''))
      \<and> resultTransform (questions sample_lib ! 3) = Some (transformKeywords sample_lib)"
    by (simp add: questions_table rawTexts_def)
  from k whole [of _ rawTexts "questions sample_lib ! 3" _ "Val (Str ''lights'')"
      "transformKeywords sample_lib", THEN conjunct2, THEN conjunct2, THEN conjunct1]
  have step: "applyTransform rawTexts (questions sample_lib ! 3) =
      rawTexts(name (questions sample_lib ! 3) :=
        transformKeywords sample_lib (Val (Str ''lights'')))"
    by (rule rev_mp)
  have i: "\<not> testCondition (condition (questions sample_lib ! 5)) rawTexts"
    by (simp add: questions_table rawTexts_def)
  then have "\<not> testCondition (condition (questions sample_lib ! 5)) rawTexts
      \<or> rawTexts (name (questions sample_lib ! 5)) = None
      \<or> resultTransform (questions sample_lib ! 5) = None" by (rule disjI1)
  from this whole [of _ rawTexts "questions sample_lib ! 5", THEN conjunct2, THEN conjunct2,
      THEN conjunct2]
  have skip: "applyTransform rawTexts (questions sample_lib ! 5) = rawTexts"
    by (rule rev_mp)
  have n3: "name (questions sample_lib ! 3) = ''keywords''"
    "transformKeywords sample_lib (Val (Str ''lights'')) = Some (Arr [Str ''lights''])"
    by (simp_all add: questions_table sample_lib_def)
  from k i skip show ?thesis unfolding out using step n3 by simp
qed

section \<open>getDefaultAnswer\<close>

text \<open>
  C10. \<^verbatim>\<open>getDefaultAnswer\<close> is defined for two keys: for \<^verbatim>\<open>adapterSettings\<close> it is
  the list of a checkbox entry \<^verbatim>\<open>option1\<close> with default \<^verbatim>\<open>true\<close> and a text entry
  \<^verbatim>\<open>option2\<close> with default \<^verbatim>\<open>"42"\<close>, for \<^verbatim>\<open>keywords\<close> the list of four keywords, and
  for every other key it is \<^verbatim>\<open>undefined\<close>.
\<close>

theorem getDefaultAnswer_values:
  "getDefaultAnswer ''adapterSettings'' =
     Some (SettingsArr [BooleanAdapterSettings ''option1'' None (Some True),
                        StringAdapterSettings ''option2'' None (Some ''42'')])
   \<and> getDefaultAnswer ''keywords'' =
     Some (Arr [Str ''ioBroker'', Str ''template'', Str ''Smart Home'', Str ''home automation''])
   \<and> (getDefaultAnswer key = None \<longleftrightarrow> key \<noteq> ''adapterSettings'' \<and> key \<noteq> ''keywords'')"
  by (simp add: getDefaultAnswer_def)

section \<open>Migration callbacks and the class pattern\<close>

lemma js_class: "js ''class'' = [0x63, 0x6C, 0x61, 0x73, 0x73]"
  by (simp add: js_def)

lemma in_lineBreaks: "(c \<in> set lineBreaks) = isLineTerminator c"
  by (auto simp: lineBreaks_def isLineTerminator_def)

lemma in_blanks: "(\<lambda>c. c \<in> {0x0020, 0x0009}) = isSpaceOrTab"
  by (auto simp: isSpaceOrTab_def)

lemma matchLiteral_startsWith: "matchLiteral p s = startsWith s p"
  by (induction p s rule: matchLiteral.induct) (auto simp: startsWith_def)

lemma startsWith_Cons:
  "startsWith (y # t) (x # p) = (y = x \<and> startsWith t p)"
  by (auto simp: startsWith_def)

lemma startsWith_Nil [simp]: "startsWith [] (x # p) = False" "startsWith t [] = True"
  by (simp_all add: startsWith_def)

lemma blank_not_class: "isSpaceOrTab c \<Longrightarrow> \<not> startsWith (c # r) (js ''class'')"
  by (auto simp: isSpaceOrTab_def js_class startsWith_Cons)

lemma terminator_not_class: "isLineTerminator c \<Longrightarrow> \<not> startsWith (c # r) (js ''class'')"
  by (auto simp: isLineTerminator_def js_class startsWith_Cons)

lemma blank_not_terminator: "isSpaceOrTab c \<Longrightarrow> \<not> isLineTerminator c"
  by (auto simp: isSpaceOrTab_def isLineTerminator_def)

lemma matchClassHere_dropWhile:
  "matchClassHere s = startsWith (dropWhile isSpaceOrTab s) (js ''class'')"
  by (induction s) (auto simp: blank_not_class matchLiteral_startsWith)

lemma splitLines_not_Nil: "splitLines s \<noteq> []"
  by (induction s) (auto split: list.splits)

lemma hd_splitLines: "hd (splitLines s) = takeWhile (\<lambda>c. \<not> isLineTerminator c) s"
  using splitLines_not_Nil by (induction s) (auto simp: in_lineBreaks split: list.splits)

lemma tl_splitLines_Cons:
  "tl (splitLines (c # r)) = (if isLineTerminator c then splitLines r else tl (splitLines r))"
  using splitLines_not_Nil [of r] by (auto simp: in_lineBreaks split: list.splits)

lemma startsWith_takeWhile:
  "\<forall>x \<in> set p. \<not> isLineTerminator x \<Longrightarrow>
   startsWith (takeWhile (\<lambda>c. \<not> isLineTerminator c) t) p = startsWith t p"
proof (induction p arbitrary: t)
  case Nil
  then show ?case by simp
next
  case (Cons x p)
  then show ?case by (cases t) (auto simp: startsWith_Cons)
qed

lemma dropWhile_takeWhile_blank:
  "dropWhile isSpaceOrTab (takeWhile (\<lambda>c. \<not> isLineTerminator c) s) =
   takeWhile (\<lambda>c. \<not> isLineTerminator c) (dropWhile isSpaceOrTab s)"
  by (induction s) (auto simp: blank_not_terminator)

lemma class_no_terminator: "\<forall>x \<in> set (js ''class''). \<not> isLineTerminator x"
  by (simp add: js_class isLineTerminator_def)

lemma beginsWithClass_dropWhile:
  "beginsWithClass l = startsWith (dropWhile isSpaceOrTab l) (js ''class'')"
  by (simp only: beginsWithClass_def in_blanks)

lemma matchClassHere_first_line: "matchClassHere s = beginsWithClass (hd (splitLines s))"
  by (simp add: matchClassHere_dropWhile beginsWithClass_dropWhile hd_splitLines
        dropWhile_takeWhile_blank startsWith_takeWhile [OF class_no_terminator])

lemma empty_line_no_class: "\<not> beginsWithClass []"
  by (simp add: beginsWithClass_dropWhile js_class)

lemma list_ex_hd_tl: "xs \<noteq> [] \<Longrightarrow> list_ex P xs = (P (hd xs) \<or> list_ex P (tl xs))"
  by (cases xs) simp_all

lemma matchClass_lines:
  "matchClass b s =
     ((b \<and> beginsWithClass (hd (splitLines s))) \<or> list_ex beginsWithClass (tl (splitLines s)))"
proof (induction s arbitrary: b)
  case Nil
  then show ?case by (simp add: empty_line_no_class js_class)
next
  case (Cons c r)
  show ?case
  proof (cases "isLineTerminator c")
    case True
    have nh: "\<not> matchClassHere (c # r)"
      unfolding matchClassHere_dropWhile
      using True by (auto simp: terminator_not_class dest: blank_not_terminator)
    have hd0: "\<not> beginsWithClass (hd (splitLines (c # r)))"
      using True by (simp add: in_lineBreaks empty_line_no_class)
    have tl0: "tl (splitLines (c # r)) = splitLines r"
      using True by (simp add: tl_splitLines_Cons del: splitLines.simps)
    have "matchClass b (c # r) = matchClass True r"
      using True nh by (simp only: matchClass.simps simp_thms)
    also have "\<dots> = (beginsWithClass (hd (splitLines r))
        \<or> list_ex beginsWithClass (tl (splitLines r)))"
      using Cons.IH [of True] by simp
    also have "\<dots> = list_ex beginsWithClass (splitLines r)"
      by (rule list_ex_hd_tl [OF splitLines_not_Nil, symmetric])
    finally have eq: "matchClass b (c # r) = list_ex beginsWithClass (splitLines r)" .
    from hd0 show ?thesis by (simp only: eq tl0 simp_thms)
  next
    case False
    have "matchClass b (c # r) = ((b \<and> matchClassHere (c # r)) \<or> matchClass False r)"
      using False by simp
    also have "\<dots> = ((b \<and> beginsWithClass (hd (splitLines (c # r))))
        \<or> list_ex beginsWithClass (tl (splitLines r)))"
      by (simp only: matchClassHere_first_line Cons.IH [of False]) simp
    finally show ?thesis using False by (simp only: tl_splitLines_Cons if_False)
  qed
qed

lemma matchClass_iff_line:
  "matchClass True s = (\<exists>l \<in> set (splitLines s). beginsWithClass l)"
proof -
  have "(\<exists>l \<in> set (splitLines s). beginsWithClass l) =
     (beginsWithClass (hd (splitLines s)) \<or> list_ex beginsWithClass (tl (splitLines s)))"
    using list_ex_hd_tl [OF splitLines_not_Nil, of beginsWithClass s]
    by (simp add: list_ex_iff)
  then show ?thesis by (simp add: matchClass_lines)
qed

lemma sample_lines:
  "splitLines (getMainFileContent sampleContext) = [js ''a = 1'', 0x0009 # js '' class A {}'']"
  by (simp add: sampleContext_def js_def lineBreaks_def)

lemma plain_lines:
  "splitLines (getMainFileContent plainContext) = [js ''subclass A'', [], js ''x class'']"
  by (simp add: plainContext_def js_def lineBreaks_def)

text \<open>
  C5. The \<^verbatim>\<open>migrate\<close> callback of \<^verbatim>\<open>language\<close> gives \<^verbatim>\<open>"TypeScript"\<close> iff the
  context finds, in \<^verbatim>\<open>src\<close>, files with the extension \<^verbatim>\<open>.ts\<close> that do not end in
  \<^verbatim>\<open>.d.ts\<close>, and \<^verbatim>\<open>"JavaScript"\<close> otherwise. That of \<^verbatim>\<open>es6class\<close> gives
  \<^verbatim>\<open>"yes"\<close> iff a line of the main file begins, after spaces and tabs, with
  \<^verbatim>\<open>class\<close>, and \<^verbatim>\<open>"no"\<close> otherwise. That of \<^verbatim>\<open>connectionIndicator\<close> gives
  \<^verbatim>\<open>"yes"\<close> iff the manifest has instance objects and one of them has the
  \<^verbatim>\<open>_id\<close> \<^verbatim>\<open>info.connection\<close>, and \<^verbatim>\<open>"no"\<close> otherwise.
\<close>

theorem migrate_callbacks:
  "(migrate_language ctx = Val (Str ''TypeScript'') \<longleftrightarrow>
      hasFilesWithExtension ctx (js ''src'') (js ''.ts'') (\<lambda>f. \<not> endsWith f (js ''.d.ts'')))
   \<and> (migrate_language ctx \<noteq> Val (Str ''TypeScript'') \<longleftrightarrow>
      migrate_language ctx = Val (Str ''JavaScript''))
   \<and> (migrate_es6class ctx = Val (Str ''yes'') \<longleftrightarrow>
      (\<exists>l \<in> set (splitLines (getMainFileContent ctx)). beginsWithClass l))
   \<and> (migrate_es6class ctx \<noteq> Val (Str ''yes'') \<longleftrightarrow> migrate_es6class ctx = Val (Str ''no''))
   \<and> (migrate_connectionIndicator ctx = Val (Str ''yes'') \<longleftrightarrow>
      (\<exists>objs. instanceObjects (ioPackageJson ctx) = Some objs
         \<and> (\<exists>obj \<in> set objs. obj_id obj = Some (js ''info.connection''))))
   \<and> (migrate_connectionIndicator ctx \<noteq> Val (Str ''yes'') \<longleftrightarrow>
      migrate_connectionIndicator ctx = Val (Str ''no''))"
  by (auto simp: migrate_language_def migrate_es6class_def migrate_connectionIndicator_def
        matchClass_iff_line list_ex_iff split: option.splits)

theorem migrate_callbacks_witness:
  "migrate_language sampleContext = Val (Str ''TypeScript'')
   \<and> migrate_es6class sampleContext = Val (Str ''yes'')
   \<and> migrate_connectionIndicator sampleContext = Val (Str ''yes'')
   \<and> migrate_language plainContext = Val (Str ''JavaScript'')
   \<and> migrate_es6class plainContext = Val (Str ''no'')
   \<and> migrate_connectionIndicator plainContext = Val (Str ''no'')"
proof -
  note whole = migrate_callbacks
  have 1: "hasFilesWithExtension sampleContext (js ''src'') (js ''.ts'')
      (\<lambda>f. \<not> endsWith f (js ''.d.ts''))"
    by (simp add: sampleContext_def endsWith_def js_def)
  have 2: "\<exists>l \<in> set (splitLines (getMainFileContent sampleContext)). beginsWithClass l"
    unfolding sample_lines by (simp add: beginsWithClass_def startsWith_def js_def)
  have 3: "\<exists>objs. instanceObjects (ioPackageJson sampleContext) = Some objs
         \<and> (\<exists>obj \<in> set objs. obj_id obj = Some (js ''info.connection''))"
    by (simp add: sampleContext_def)
  have 4: "\<not> hasFilesWithExtension plainContext (js ''src'') (js ''.ts'')
      (\<lambda>f. \<not> endsWith f (js ''.d.ts''))"
    by (simp add: plainContext_def endsWith_def js_def)
  have 5: "\<not> (\<exists>l \<in> set (splitLines (getMainFileContent plainContext)). beginsWithClass l)"
    unfolding plain_lines by (simp add: beginsWithClass_def startsWith_def js_def)
  have 6: "\<not> (\<exists>objs. instanceObjects (ioPackageJson plainContext) = Some objs
         \<and> (\<exists>obj \<in> set objs. obj_id obj = Some (js ''info.connection'')))"
    by (simp add: plainContext_def)
  from 1 2 3 whole [of sampleContext] have a: "migrate_language sampleContext = Val (Str ''TypeScript'')
   \<and> migrate_es6class sampleContext = Val (Str ''yes'')
   \<and> migrate_connectionIndicator sampleContext = Val (Str ''yes'')" by blast
  from 4 5 6 whole [of plainContext] have b: "migrate_language plainContext = Val (Str ''JavaScript'')
   \<and> migrate_es6class plainContext = Val (Str ''no'')
   \<and> migrate_connectionIndicator plainContext = Val (Str ''no'')" by blast
  from a b show ?thesis by blast
qed

end
